theory Spec2Isabelle
  imports Main "HOL-Library.Char_ord" "HOL-Library.List_Lexorder"
begin

section \<open>Python values and library functions used by app.py\<close>

text \<open>
  Exceptions that can leave the modelled functions. \<open>KeyError\<close> carries the missing
  dictionary key, the file system errors carry the path.
\<close>

datatype py_error =
    KeyError string
  | IndexError
  | TypeError
  | FileNotFoundError string
  | OSError string

text \<open>Python strings are \<open>string\<close>; \<open>s.startswith(t)\<close> and \<open>s.endswith(t)\<close>.\<close>

definition startswith :: "string \<Rightarrow> string \<Rightarrow> bool" where
  "startswith s t = (take (length t) s = t)"

definition endswith :: "string \<Rightarrow> string \<Rightarrow> bool" where
  "endswith s t = (length t \<le> length s \<and> drop (length s - length t) s = t)"

text \<open>\<open>s.lower()\<close>, on the ASCII letters.\<close>

definition lower_char :: "char \<Rightarrow> char" where
  "lower_char c =
     (if CHR ''A'' \<le> c \<and> c \<le> CHR ''Z'' then char_of (of_char c + (32::nat)) else c)"

definition lower :: "string \<Rightarrow> string" where
  "lower s = map lower_char s"

text \<open>
  \<open>s.strip()\<close> removes the characters for which \<open>isspace()\<close> holds. A decoded text is
  held as the bytes of its UTF-8 encoding, so a white space character is one byte (the
  ASCII ones: U+0009 to U+000D, U+001C to U+0020) or the two or three bytes of U+0085,
  U+00A0, U+1680, U+2000 to U+200A, U+2028, U+2029, U+202F, U+205F or U+3000.
  \<open>skip_space\<close> takes one white space character off the front, if there is one, and
  \<open>strip_nonempty\<close> is whether \<open>s.strip()\<close> is a non-empty string.
\<close>

definition isspace :: "char \<Rightarrow> bool" where
  "isspace c = (c = CHR 0x20 \<or> c = CHR 0x09 \<or> c = CHR 0x0A \<or> c = CHR 0x0B \<or> c = CHR 0x0C
     \<or> c = CHR 0x0D \<or> c = CHR 0x1C \<or> c = CHR 0x1D \<or> c = CHR 0x1E \<or> c = CHR 0x1F)"

fun skip_space :: "string \<Rightarrow> string option" where
  "skip_space [] = None"
| "skip_space [c] = (if isspace c then Some [] else None)"
| "skip_space [c, d] =
     (if isspace c then Some [d]
      else if c = CHR 0xC2 \<and> (d = CHR 0x85 \<or> d = CHR 0xA0) then Some []
      else None)"
| "skip_space (c # d # e # r) =
     (if isspace c then Some (d # e # r)
      else if c = CHR 0xC2 \<and> (d = CHR 0x85 \<or> d = CHR 0xA0) then Some (e # r)
      else if c = CHR 0xE1 \<and> d = CHR 0x9A \<and> e = CHR 0x80 then Some r
      else if c = CHR 0xE2 \<and> d = CHR 0x80
              \<and> ((CHR 0x80 \<le> e \<and> e \<le> CHR 0x8A) \<or> e = CHR 0xA8 \<or> e = CHR 0xA9 \<or> e = CHR 0xAF)
           then Some r
      else if c = CHR 0xE2 \<and> d = CHR 0x81 \<and> e = CHR 0x9F then Some r
      else if c = CHR 0xE3 \<and> d = CHR 0x80 \<and> e = CHR 0x80 then Some r
      else None)"

function only_space :: "string \<Rightarrow> bool" where
  "only_space s =
     (if s = [] then True
      else (case skip_space s of None \<Rightarrow> False | Some r \<Rightarrow> only_space r))"
  by pat_completeness auto
termination
proof (relation "measure length")
  show "wf (measure length)" by simp
next
  fix s r :: string
  assume "s \<noteq> []" and "skip_space s = Some r"
  then show "(r, s) \<in> measure length"
    by (induction s rule: skip_space.induct) (auto split: if_splits)
qed

definition strip_nonempty :: "string \<Rightarrow> bool" where
  "strip_nonempty s = (\<not> only_space s)"

text \<open>\<open>sep.join(xs)\<close>.\<close>

fun str_join :: "string \<Rightarrow> string list \<Rightarrow> string" where
  "str_join sep [] = []"
| "str_join sep [x] = x"
| "str_join sep (x # y # ys) = x @ sep @ str_join sep (y # ys)"

text \<open>\<open>str(n)\<close> for an integer, in decimal.\<close>

function str_nat :: "nat \<Rightarrow> string" where
  "str_nat n =
     (if n < 10 then [char_of (48 + n)]
      else str_nat (n div 10) @ [char_of (48 + n mod 10)])"
  by pat_completeness auto
termination
  by (relation "measure id") auto

definition str_int :: "int \<Rightarrow> string" where
  "str_int i = (if i < 0 then CHR ''-'' # str_nat (nat (- i)) else str_nat (nat i))"

subsection \<open>os.path, in its POSIX implementation (posixpath)\<close>

text \<open>
  \<open>p.rfind(c)\<close> for a one-character \<open>c\<close>: the index of the last occurrence, or \<open>-1\<close>.
\<close>

definition rfind :: "char \<Rightarrow> string \<Rightarrow> int" where
  "rfind c p =
     (if c \<in> set p then int (length p) - 1 - int (length (takeWhile (\<lambda>x. x \<noteq> c) (rev p)))
      else - 1)"

text \<open>
  \<open>basename\<close>: \<open>i = p.rfind('/') + 1; return p[i:]\<close>.
\<close>

definition os_path_basename :: "string \<Rightarrow> string" where
  "os_path_basename p = (let i = rfind (CHR ''/'') p + 1 in drop (nat i) p)"

text \<open>
  \<open>dirname\<close>: \<open>head = p[:i]\<close>; unless \<open>head\<close> is empty or all slashes, its trailing
  slashes are stripped.
\<close>

definition rstrip_sep :: "string \<Rightarrow> string" where
  "rstrip_sep s = rev (dropWhile (\<lambda>c. c = CHR ''/'') (rev s))"

definition os_path_dirname :: "string \<Rightarrow> string" where
  "os_path_dirname p =
     (let i = rfind (CHR ''/'') p + 1;
          head = take (nat i) p
      in if head \<noteq> [] \<and> head \<noteq> replicate (length head) (CHR ''/'') then rstrip_sep head
         else head)"

text \<open>
  \<open>splitext\<close> (genericpath._splitext with \<open>sep = '/'\<close>, no altsep, \<open>extsep = '.'\<close>): the
  last dot splits the path when it lies after the last slash and some character between
  that slash and the dot is not a dot. The loop over \<open>filenameIndex\<close> is
  \<open>has_nondot\<close> on the slice it walks through.
\<close>

fun has_nondot :: "string \<Rightarrow> bool" where
  "has_nondot [] = False"
| "has_nondot (c # cs) = (if c \<noteq> CHR ''.'' then True else has_nondot cs)"

definition os_path_splitext :: "string \<Rightarrow> string \<times> string" where
  "os_path_splitext p =
     (let sepIndex = rfind (CHR ''/'') p;
          dotIndex = rfind (CHR ''.'') p
      in if dotIndex > sepIndex
            \<and> has_nondot (take (nat (dotIndex - (sepIndex + 1))) (drop (nat (sepIndex + 1)) p))
         then (take (nat dotIndex) p, drop (nat dotIndex) p)
         else (p, []))"

text \<open>
  \<open>join(a, *p)\<close>: a component that starts with a slash replaces the path so far;
  otherwise it is appended, after a slash unless the path so far is empty or ends in one.
\<close>

definition join_step :: "string \<Rightarrow> string \<Rightarrow> string" where
  "join_step path b =
     (if startswith b ''/'' then b
      else if path = [] \<or> endswith path ''/'' then path @ b
      else path @ ''/'' @ b)"

definition os_path_join :: "string \<Rightarrow> string list \<Rightarrow> string" where
  "os_path_join a p = foldl join_step a p"

text \<open>
  \<open>normpath\<close>: \<open>path.split('/')\<close>, the loop over the components that drops empty and
  \<open>.\<close> components and resolves \<open>..\<close>, and the one or two initial slashes kept.
\<close>

fun split_sep :: "string \<Rightarrow> string list" where
  "split_sep [] = [[]]"
| "split_sep (c # cs) =
     (if c = CHR ''/'' then [] # split_sep cs
      else (case split_sep cs of [] \<Rightarrow> [[c]] | x # xs \<Rightarrow> (c # x) # xs))"

definition initial_slashes :: "string \<Rightarrow> nat" where
  "initial_slashes path =
     (if startswith path ''/'' then
        (if startswith path ''//'' \<and> \<not> startswith path ''///'' then 2 else 1)
      else 0)"

definition norm_step :: "nat \<Rightarrow> string list \<Rightarrow> string \<Rightarrow> string list" where
  "norm_step slashes new_comps cmp =
     (if cmp = [] \<or> cmp = ''.'' then new_comps
      else if cmp \<noteq> ''..'' \<or> (slashes = 0 \<and> new_comps = [])
              \<or> (new_comps \<noteq> [] \<and> last new_comps = ''..'')
      then new_comps @ [cmp]
      else if new_comps \<noteq> [] then butlast new_comps
      else new_comps)"

definition os_path_normpath :: "string \<Rightarrow> string" where
  "os_path_normpath path =
     (if path = [] then ''.''
      else
        let slashes = initial_slashes path;
            comps = foldl (norm_step slashes) [] (split_sep path);
            path' = replicate slashes (CHR ''/'') @ str_join ''/'' comps
        in if path' = [] then ''.'' else path')"

section \<open>ApkBuilderGUI\<close>

subsection \<open>wrap\<close>

text \<open>
  The argument of \<open>wrap\<close> is a Python value that is either a \<open>str\<close> or a list of
  strings; so is its result.
\<close>

datatype cmd_value = Str string | Lst "string list"

definition wrap :: "cmd_value \<Rightarrow> cmd_value" where
  "wrap cmd =
     (case cmd of
        Str c \<Rightarrow>
          Lst [''cmd'', ''/c'',
               if CHR '' '' \<in> set c \<and> \<not> startswith c [CHR 0x22]
               then [CHR 0x22] @ c @ [CHR 0x22] else c]
      | Lst l \<Rightarrow> Lst l)"

subsection \<open>The world outside the program\<close>

text \<open>
  What the program asks of its environment: \<open>shutil.which\<close>, \<open>os.path.isfile\<close> (the set
  \<open>files\<close>), the directories (the set \<open>dirs\<close>, to which \<open>os.makedirs\<close> adds),
  \<open>os.listdir\<close> (the names of all entries, files and directories; it raises for a missing
  directory), whether \<open>os.remove\<close> and \<open>os.makedirs\<close> of a path fail and with what,
  the text of the exception raised when the settings file cannot be written, the content
  of the settings file when it holds a mapping (of strings to strings), and
  \<open>platform.system()\<close>.
\<close>

record world =
  which :: "string \<Rightarrow> string option"
  files :: "string set"
  dirs :: "string set"
  listdir :: "string \<Rightarrow> py_error + string list"
  remove_error :: "string \<Rightarrow> py_error option"
  makedirs_error :: "string \<Rightarrow> py_error option"
  save_error :: "string option"
  config :: "(string \<rightharpoonup> string) option"
  platform_system :: string

text \<open>
  What the user and the environment observe, in the order it happens: the console being
  cleared and appended to, the three kinds of message box (title and text), and a process
  being started (program and arguments).
\<close>

datatype effect =
    ConsoleClear
  | ConsoleAppend string
  | Critical string string
  | Warning string string
  | Information string string
  | ProcessStart string "string list"

text \<open>
  The fields of \<open>ApkBuilderGUI\<close> that the run logic reads or writes; \<open>page\<close> is
  \<open>self.stack.currentIndex()\<close> and \<open>run_button\<close> is whether the Run button is enabled.
\<close>

record gui =
  settings :: "string \<rightharpoonup> string"
  page :: nat
  run_button :: bool
  commands :: "string list list"
  current_index :: nat
  built_apk :: "string option"
  aligned_apk :: "string option"
  effects :: "effect list"
  os :: world

text \<open>A method either returns, or an exception leaves it; both with the state reached.\<close>

datatype outcome = Returned gui | Raised py_error gui

fun then_do :: "outcome \<Rightarrow> (gui \<Rightarrow> outcome) \<Rightarrow> outcome" where
  "then_do (Returned g) f = f g"
| "then_do (Raised e g) f = Raised e g"

definition emit :: "effect \<Rightarrow> gui \<Rightarrow> gui" where
  "emit e g = g\<lparr>effects := effects g @ [e]\<rparr>"

subsection \<open>Settings\<close>

text \<open>The dictionary built in \<open>__init__\<close>.\<close>

definition init_settings :: "string \<rightharpoonup> string" where
  "init_settings =
     [''dump_file'' \<mapsto> [], ''dump_out'' \<mapsto> [], ''pack_dir'' \<mapsto> [],
      ''keystore_path'' \<mapsto> [], ''keystore_pass'' \<mapsto> [], ''keystore_out'' \<mapsto> [],
      ''sdk_path'' \<mapsto> []]"

text \<open>
  \<open>load_settings\<close>: when the settings file holds a mapping, \<open>self.settings.update(data)\<close>;
  otherwise nothing.
\<close>

definition load_settings :: "gui \<Rightarrow> gui" where
  "load_settings g =
     (case config (os g) of
        None \<Rightarrow> g
      | Some data \<Rightarrow> g\<lparr>settings := settings g ++ data\<rparr>)"

text \<open>\<open>save_settings\<close>: the settings are written, or a warning is shown.\<close>

definition save_settings :: "gui \<Rightarrow> gui" where
  "save_settings g =
     (case save_error (os g) of
        None \<Rightarrow> g\<lparr>os := (os g)\<lparr>config := Some (settings g)\<rparr>\<rparr>
      | Some e \<Rightarrow> emit (Warning ''Warning'' (''Cannot save settings: '' @ e)) g)"

text \<open>The state in which \<open>__init__\<close> leaves the object (the Dump page is shown).\<close>

definition init_gui :: "world \<Rightarrow> gui" where
  "init_gui w =
     load_settings
       \<lparr>settings = init_settings, page = 0, run_button = True, commands = [],
        current_index = 0, built_apk = None, aligned_apk = None, effects = [], os = w\<rparr>"

definition switch_mode :: "nat \<Rightarrow> gui \<Rightarrow> gui" where
  "switch_mode idx g = g\<lparr>page := idx\<rparr>"

text \<open>\<open>s[k]\<close> on a dictionary.\<close>

definition getitem :: "(string \<rightharpoonup> string) \<Rightarrow> string \<Rightarrow> py_error + string" where
  "getitem s k = (case s k of None \<Rightarrow> Inl (KeyError k) | Some v \<Rightarrow> Inr v)"

subsection \<open>execute_next and the signal handlers\<close>

text \<open>
  \<open>os.remove(p)\<close>, which raises for a path that is not a file and may fail for one
  that is; and the guard of the cleanup, \<open>p and os.path.isfile(p)\<close>.
\<close>

definition os_remove :: "string \<Rightarrow> gui \<Rightarrow> outcome" where
  "os_remove p g =
     (if p \<notin> files (os g) then Raised (FileNotFoundError p) g
      else
        (case remove_error (os g) p of
           Some e \<Rightarrow> Raised e g
         | None \<Rightarrow> Returned (g\<lparr>os := (os g)\<lparr>files := files (os g) - {p}\<rparr>\<rparr>)))"

definition remove_if_file :: "string option \<Rightarrow> gui \<Rightarrow> outcome" where
  "remove_if_file path g =
     (case path of
        None \<Rightarrow> Returned g
      | Some p \<Rightarrow> if p \<noteq> [] \<and> p \<in> files (os g) then os_remove p g else Returned g)"

text \<open>
  \<open>execute_next\<close>. With the queue used up: the Done box, the cleanup on the Pack page,
  the Run button. Otherwise the command is shown, started, and the index moves on; for a
  command without a program token \<open>cmd[0]\<close> raises inside the \<open>try\<close>, and appending the
  exception object to the console raises in turn.
\<close>

definition execute_next :: "gui \<Rightarrow> outcome" where
  "execute_next g =
     (if current_index g \<ge> length (commands g) then
        then_do
          (if page g = 1 then
             then_do (remove_if_file (built_apk g) (emit (Information ''Done'' ''All tasks completed'') g))
               (\<lambda>g'. remove_if_file (aligned_apk g') g')
           else Returned (emit (Information ''Done'' ''All tasks completed'') g))
          (\<lambda>g'. Returned (g'\<lparr>run_button := True\<rparr>))
      else
        let cmd = commands g ! current_index g;
            g1 = emit (ConsoleAppend (''>> '' @ str_join '' '' cmd)) g
        in case cmd of
             [] \<Rightarrow> Raised TypeError g1
           | prog # args \<Rightarrow>
               Returned ((emit (ProcessStart prog args) g1)\<lparr>current_index := current_index g + 1\<rparr>))"

text \<open>
  What \<open>readyReadStandardOutput\<close> delivers: the bytes read decode to a text, or decoding
  raises with some message.
\<close>

datatype chunk = Text string | Undecodable string

definition on_output :: "chunk \<Rightarrow> gui \<Rightarrow> outcome" where
  "on_output d g =
     (case d of
        Text t \<Rightarrow> Returned (if strip_nonempty t then emit (ConsoleAppend t) g else g)
      | Undecodable e \<Rightarrow> Returned (emit (ConsoleAppend (''> Error : '' @ e)) g))"

definition finished_line :: "int \<Rightarrow> int \<Rightarrow> string" where
  "finished_line exit_code exit_status =
     ''[Finished] exitCode='' @ str_int exit_code @ '', status='' @ str_int exit_status"

definition on_finished :: "int \<Rightarrow> int \<Rightarrow> gui \<Rightarrow> outcome" where
  "on_finished exit_code exit_status g =
     execute_next (emit (ConsoleAppend (finished_line exit_code exit_status)) g)"

definition on_process_error :: "int \<Rightarrow> gui \<Rightarrow> outcome" where
  "on_process_error err g =
     Returned (emit (ConsoleAppend (''Process launched failed, type error: '' @ str_int err)) g)"

text \<open>The signals of the process object, and the event loop handing them to their slots.\<close>

datatype signal = ReadyRead chunk | Finished int int | ErrorOccurred int

fun dispatch :: "signal \<Rightarrow> gui \<Rightarrow> outcome" where
  "dispatch (ReadyRead d) g = on_output d g"
| "dispatch (Finished c s) g = on_finished c s g"
| "dispatch (ErrorOccurred e) g = on_process_error e g"

fun deliver :: "signal list \<Rightarrow> outcome \<Rightarrow> outcome" where
  "deliver [] r = r"
| "deliver (x # xs) r = deliver xs (then_do r (dispatch x))"

subsection \<open>start_mode\<close>

text \<open>
  \<open>a or b\<close> on what \<open>shutil.which\<close> returns (\<open>None\<close> and the empty string are false).
\<close>

definition truthy :: "string option \<Rightarrow> bool" where
  "truthy a = (case a of None \<Rightarrow> False | Some p \<Rightarrow> p \<noteq> [])"

definition py_or :: "string option \<Rightarrow> string option \<Rightarrow> string option" where
  "py_or a b = (if truthy a then a else b)"

text \<open>
  The executor: the jar beside a \<open>.bat\<close> wrapper run by java, when java is found and the
  jar is a file; the located tool itself otherwise.
\<close>

definition executor_for :: "world \<Rightarrow> string \<Rightarrow> string list" where
  "executor_for w apktool =
     (case which w ''java'' of
        Some java \<Rightarrow>
          if endswith (lower apktool) ''.bat'' \<and> java \<noteq> [] then
            (let jar = os_path_join (os_path_dirname apktool) [''apktool.jar'']
             in if jar \<in> files w then [java, ''-jar'', jar] else [apktool])
          else [apktool]
      | None \<Rightarrow> [apktool])"

text \<open>
  A mode's branch of \<open>start_mode\<close> ends in one of three ways: the commands are queued
  and control reaches the code after the branches; the fields are rejected and
  \<open>start_mode\<close> returns; an exception is raised.
\<close>

datatype plan = Planned gui | Rejected gui | Failed py_error gui

definition reject :: "string \<Rightarrow> gui \<Rightarrow> plan" where
  "reject msg g = Rejected ((emit (Warning ''Error'' msg) g)\<lparr>run_button := True\<rparr>)"

definition append_command :: "string list \<Rightarrow> gui \<Rightarrow> gui" where
  "append_command cmd g = g\<lparr>commands := commands g @ [cmd]\<rparr>"

text \<open>Dump (\<open>mode == 0\<close>).\<close>

definition plan_dump :: "string list \<Rightarrow> gui \<Rightarrow> plan" where
  "plan_dump executor g =
     (case getitem (settings g) ''dump_file'' of
        Inl e \<Rightarrow> Failed e g
      | Inr apk \<Rightarrow>
     (case getitem (settings g) ''dump_out'' of
        Inl e \<Rightarrow> Failed e g
      | Inr out \<Rightarrow>
          if apk = [] \<or> out = [] then reject ''Please fill in Dump fields.'' g
          else
            let target = os_path_normpath
                  (os_path_join out [fst (os_path_splitext (os_path_basename apk))])
            in case makedirs_error (os g) target of
                 Some e \<Rightarrow> Failed e g
               | None \<Rightarrow>
                   Planned (append_command (executor @ [''d'', ''-f'', apk, ''-o'', target])
                     (g\<lparr>os := (os g)\<lparr>dirs := insert target (dirs (os g))\<rparr>\<rparr>))))"

text \<open>
  The alignment and signing tools (the \<open>if sdkroot:\<close> statement of the Pack branch):
  \<open>sorted(os.listdir(...), reverse=True)[0]\<close> raises when the listing does or when it is
  empty. \<open>os.path.join\<close> is the platform's (posixpath's, or ntpath's on Windows), so it
  is a parameter here; the program as modelled runs with posixpath's.
\<close>

definition locate_tools_with ::
  "(string \<Rightarrow> string list \<Rightarrow> string) \<Rightarrow> world \<Rightarrow> string \<Rightarrow> py_error + (string \<times> string)" where
  "locate_tools_with path_join w sdkroot =
     (if sdkroot \<noteq> [] then
        (case listdir w (path_join sdkroot [''build-tools'']) of
           Inl e \<Rightarrow> Inl e
         | Inr names \<Rightarrow>
             (case rev (sort names) of
                [] \<Rightarrow> Inl IndexError
              | bt # _ \<Rightarrow>
                  let tools = path_join sdkroot [''build-tools'', bt];
                      ext = (if platform_system w = ''Windows'' then ''.exe'' else [])
                  in Inr (path_join tools [''zipalign'' @ ext],
                          path_join tools [''apksigner'' @ ext])))
      else Inr (''zipalign'', ''apksigner''))"

definition locate_tools :: "world \<Rightarrow> string \<Rightarrow> py_error + (string \<times> string)" where
  "locate_tools w sdkroot = locate_tools_with os_path_join w sdkroot"

text \<open>\<open>self.wrap(x) + args\<close>: list concatenation, a \<open>TypeError\<close> on a string.\<close>

definition wrapped :: "string \<Rightarrow> string list \<Rightarrow> py_error + string list" where
  "wrapped x args = (case wrap (Str x) of Lst l \<Rightarrow> Inr (l @ args) | Str _ \<Rightarrow> Inl TypeError)"

text \<open>Pack (\<open>mode == 1\<close>).\<close>

definition plan_pack :: "string list \<Rightarrow> gui \<Rightarrow> plan" where
  "plan_pack executor g =
     (case getitem (settings g) ''pack_dir'' of
        Inl e \<Rightarrow> Failed e g
      | Inr proj \<Rightarrow>
     (case getitem (settings g) ''keystore_path'' of
        Inl e \<Rightarrow> Failed e g
      | Inr ks \<Rightarrow>
     (case getitem (settings g) ''keystore_pass'' of
        Inl e \<Rightarrow> Failed e g
      | Inr ksp \<Rightarrow>
          if proj = [] \<or> ks = [] \<or> ksp = [] then reject ''Please fill in Pack fields.'' g
          else
            let outdir = os_path_dirname proj;
                apkname = fst (os_path_splitext (os_path_basename proj)) @ ''.apk'';
                built = os_path_normpath (os_path_join outdir [apkname]);
                g1 = append_command (executor @ [''b'', proj, ''-o'', built])
                       (g\<lparr>built_apk := Some built\<rparr>)
            in
            (case getitem (settings g1) ''sdk_path'' of
               Inl e \<Rightarrow> Failed e g1
             | Inr sdkroot \<Rightarrow>
            (case locate_tools (os g1) sdkroot of
               Inl e \<Rightarrow> Failed e g1
             | Inr (za, asgn) \<Rightarrow>
                 let aligned = os_path_normpath (os_path_join outdir [''aligned_'' @ apkname]);
                     g2 = g1\<lparr>aligned_apk := Some aligned\<rparr>;
                     signed = os_path_normpath (os_path_join outdir [''signed_'' @ apkname])
                 in
                 (case wrapped za [''-v'', ''-p'', ''4'', built, aligned] of
                    Inl e \<Rightarrow> Failed e g2
                  | Inr c2 \<Rightarrow>
                 (case wrapped asgn [''sign'', ''-v'', ''--ks'', ks, ''--ks-pass'',
                                     ''pass:'' @ ksp, ''--out'', signed, aligned] of
                    Inl e \<Rightarrow> Failed e (append_command c2 g2)
                  | Inr c3 \<Rightarrow> Planned (append_command c3 (append_command c2 g2)))))))))"

text \<open>Keystore generation (the \<open>else\<close> branch).\<close>

definition plan_keystore :: "gui \<Rightarrow> plan" where
  "plan_keystore g =
     (case getitem (settings g) ''keystore_out'' of
        Inl e \<Rightarrow> Failed e g
      | Inr kout \<Rightarrow>
     (case getitem (settings g) ''gen_alias'' of
        Inl e \<Rightarrow> Failed e g
      | Inr alias \<Rightarrow>
     (case getitem (settings g) ''gen_alias_pass'' of
        Inl e \<Rightarrow> Failed e g
      | Inr apw \<Rightarrow>
          if kout = [] \<or> alias = [] \<or> apw = [] then reject ''Please fill in Keystore fields.'' g
          else
            Planned (append_command
              [''keytool'', ''-genkey'', ''-v'', ''-keystore'', kout, ''-alias'', alias,
               ''-keyalg'', ''RSA'', ''-keysize'', ''2048'', ''-validity'', ''10000'',
               ''-storepass'', apw, ''-keypass'', apw] g))))"

text \<open>
  \<open>start_mode\<close>: the Run button is disabled, the console cleared, the settings saved,
  the run state reset, apktool looked up, the branch of the selected page taken, and
  \<open>execute_next\<close> called on the queue.
\<close>

definition start_mode :: "gui \<Rightarrow> outcome" where
  "start_mode g0 =
     (let g1 = save_settings (emit ConsoleClear (g0\<lparr>run_button := False\<rparr>));
          mode = page g1;
          g2 = g1\<lparr>commands := [], current_index := 0, built_apk := None, aligned_apk := None\<rparr>
      in case py_or (which (os g2) ''apktool'') (which (os g2) ''apktool.bat'') of
           None \<Rightarrow>
             Returned ((emit (Critical ''Error'' ''Please install apktool and add to PATH.'') g2)
                        \<lparr>run_button := True\<rparr>)
         | Some apktool \<Rightarrow>
             if apktool = [] then
               Returned ((emit (Critical ''Error'' ''Please install apktool and add to PATH.'') g2)
                          \<lparr>run_button := True\<rparr>)
             else
               let executor = executor_for (os g2) apktool
               in case (if mode = 0 then plan_dump executor g2
                        else if mode = 1 then plan_pack executor g2
                        else plan_keystore g2) of
                    Planned g \<Rightarrow> execute_next g
                  | Rejected g \<Rightarrow> Returned g
                  | Failed e g \<Rightarrow> Raised e g)"

subsection \<open>Observations and example inputs\<close>

text \<open>
  The state an outcome ends in, the exception it raises (if any), and the processes
  started among a list of effects.
\<close>

fun state_of :: "outcome \<Rightarrow> gui" where
  "state_of (Returned g) = g"
| "state_of (Raised e g) = g"

fun raised :: "outcome \<Rightarrow> py_error option" where
  "raised (Returned g) = None"
| "raised (Raised e g) = Some e"

fun starts :: "effect list \<Rightarrow> (string \<times> string list) list" where
  "starts [] = []"
| "starts (ProcessStart p a # es) = (p, a) # starts es"
| "starts (e # es) = starts es"

text \<open>
  The state of \<open>start_mode\<close> when it looks for apktool: the button disabled, the console
  cleared, the settings saved, the run state reset.
\<close>

definition prepared :: "gui \<Rightarrow> gui" where
  "prepared g0 =
     (save_settings (emit ConsoleClear (g0\<lparr>run_button := False\<rparr>)))
       \<lparr>commands := [], current_index := 0, built_apk := None, aligned_apk := None\<rparr>"

text \<open>
  A process that was launched and runs to its end sends its output in chunks and then
  \<open>finished\<close> with its exit code and status. What the program shows for one command with
  such a process: the command line and the launch, the chunks that are shown, the
  finished line.
\<close>

type_synonym process_run = "chunk list \<times> int \<times> int"

fun process_signals :: "process_run \<Rightarrow> signal list" where
  "process_signals (outs, code, status) = map ReadyRead outs @ [Finished code status]"

fun chunk_effects :: "chunk \<Rightarrow> effect list" where
  "chunk_effects (Text t) = (if strip_nonempty t then [ConsoleAppend t] else [])"
| "chunk_effects (Undecodable e) = [ConsoleAppend (''> Error : '' @ e)]"

fun command_effects :: "string list \<Rightarrow> process_run \<Rightarrow> effect list" where
  "command_effects cmd (outs, code, status) =
     [ConsoleAppend (''>> '' @ str_join '' '' cmd), ProcessStart (hd cmd) (tl cmd)]
     @ concat (map chunk_effects outs)
     @ [ConsoleAppend (finished_line code status)]"

text \<open>
  A POSIX machine with apktool on the search path, an SDK under \<open>/sdk\<close> with three
  build-tools versions, and the three packages of a finished Pack run of \<open>/x/MyApp\<close>.
\<close>

definition demo_world :: world where
  "demo_world =
     \<lparr>which = (\<lambda>n. if n = ''apktool'' then Some ''/usr/bin/apktool'' else None),
      files = {''/x/MyApp.apk'', ''/x/aligned_MyApp.apk'', ''/x/signed_MyApp.apk''},
      dirs = {},
      listdir = (\<lambda>d. if d = ''/sdk/build-tools'' then Inr [''29.0.2'', ''30.0.3'', ''28.0.3'']
                     else Inl (FileNotFoundError d)),
      remove_error = (\<lambda>p. None),
      makedirs_error = (\<lambda>p. None),
      save_error = None,
      config = None,
      platform_system = ''Linux''\<rparr>"

text \<open>
  The fields as the file dialogs (\<open>select_dump_file\<close> and the others) or the settings
  file leave them: each listed key set to its value.
\<close>

definition with_settings :: "(string \<times> string) list \<Rightarrow> gui \<Rightarrow> gui" where
  "with_settings kvs g = g\<lparr>settings := settings g ++ map_of kvs\<rparr>"

text \<open>
  The program freshly started on that machine, switched to a page and with fields set:
  a Dump of \<open>/tmp/app.apk\<close> into \<open>/out\<close>, and a Pack of a project directory with a
  keystore, a password and an SDK root (possibly empty).
\<close>

definition demo_dump :: gui where
  "demo_dump =
     with_settings [(''dump_file'', ''/tmp/app.apk''), (''dump_out'', ''/out'')]
       (init_gui demo_world)"

definition demo_pack :: "world \<Rightarrow> string \<Rightarrow> string \<Rightarrow> gui" where
  "demo_pack w proj sdk =
     with_settings [(''pack_dir'', proj), (''keystore_path'', ''/k.jks''),
                    (''keystore_pass'', ''pw''), (''sdk_path'', sdk)]
       (switch_mode 1 (init_gui w))"

text \<open>
  The state of a run when the \<open>finished\<close> signal of its last command has been taken:
  the index is past the queue.
\<close>

definition all_finished :: "gui \<Rightarrow> gui" where
  "all_finished g = g\<lparr>current_index := length (commands g)\<rparr>"

text \<open>
  The same machine with the built package held open by another program, so that
  removing it fails; and with a settings file that holds a keystore output path only.
\<close>

definition locked_world :: world where
  "locked_world =
     demo_world\<lparr>remove_error :=
       (\<lambda>p. if p = ''/x/MyApp.apk'' then Some (OSError ''/x/MyApp.apk'') else None)\<rparr>"

definition stored_world :: world where
  "stored_world = demo_world\<lparr>config := Some [''keystore_out'' \<mapsto> ''/k.jks'']\<rparr>"




section \<open>Properties\<close>

subsection \<open>The wrapping function\<close>

text \<open>
  C1 (as the code has it). For a string program token \<open>wrap\<close> always builds the shell
  invocation \<open>cmd /c token\<close>, on every platform: the token is put between double quotes
  when it contains a space character and does not already start with a double quote, and
  is passed as it is otherwise (so a token without a space is wrapped too, unquoted). A
  list is returned unchanged.
\<close>

theorem wrap_string_or_list:
  "(CHR '' '' \<in> set p \<and> \<not> startswith p [CHR 0x22] \<longrightarrow>
      wrap (Str p) = Lst [''cmd'', ''/c'', [CHR 0x22] @ p @ [CHR 0x22]])
   \<and> (CHR '' '' \<notin> set p \<or> startswith p [CHR 0x22] \<longrightarrow>
      wrap (Str p) = Lst [''cmd'', ''/c'', p])
   \<and> wrap (Lst l) = Lst l"
  by (simp add: wrap_def)

theorem wrap_string_or_list_witness:
  "wrap (Str ''C:/Program Files/sdk/zipalign.exe'')
     = Lst [''cmd'', ''/c'', [CHR 0x22] @ ''C:/Program Files/sdk/zipalign.exe'' @ [CHR 0x22]]
   \<and> wrap (Str ''zipalign'') = Lst [''cmd'', ''/c'', ''zipalign'']
   \<and> wrap (Lst [''java'', ''-jar'', ''apktool.jar'']) = Lst [''java'', ''-jar'', ''apktool.jar'']"
  using wrap_string_or_list [of "''C:/Program Files/sdk/zipalign.exe''" "[''java'', ''-jar'', ''apktool.jar'']"]
        wrap_string_or_list [of "''zipalign''" "[]"]
  by (simp add: startswith_def)

text \<open>
  C1 as stated fails: the program token \<open>zipalign\<close>, a string without whitespace, does
  not pass through unchanged, neither as the string nor as the one-token command.
\<close>

theorem wrap_plain_string_counterexample:
  "wrap (Str ''zipalign'') \<noteq> Str ''zipalign'' \<and> wrap (Str ''zipalign'') \<noteq> Lst [''zipalign'']"
  by (simp add: wrap_def)

subsection \<open>The start of a run\<close>

lemma starts_append: "starts (xs @ ys) = starts xs @ starts ys"
  by (induction xs rule: starts.induct) auto

lemma prepared_fields:
  "settings (prepared g0) = settings g0" "page (prepared g0) = page g0"
  "commands (prepared g0) = []" "current_index (prepared g0) = 0"
  "built_apk (prepared g0) = None" "aligned_apk (prepared g0) = None"
  "run_button (prepared g0) = False"
  "which (os (prepared g0)) = which (os g0)" "files (os (prepared g0)) = files (os g0)"
  "dirs (os (prepared g0)) = dirs (os g0)" "listdir (os (prepared g0)) = listdir (os g0)"
  "remove_error (os (prepared g0)) = remove_error (os g0)"
  "makedirs_error (os (prepared g0)) = makedirs_error (os g0)"
  "platform_system (os (prepared g0)) = platform_system (os g0)"
  "starts (effects (prepared g0)) = starts (effects g0)"
  by (simp_all add: prepared_def save_settings_def emit_def starts_append split: option.splits)

lemma start_mode_found:
  assumes "py_or (which (os g0) ''apktool'') (which (os g0) ''apktool.bat'') = Some a" "a \<noteq> []"
  shows "start_mode g0 =
    (case (if page g0 = 0 then plan_dump (executor_for (os (prepared g0)) a) (prepared g0)
           else if page g0 = 1 then plan_pack (executor_for (os (prepared g0)) a) (prepared g0)
           else plan_keystore (prepared g0)) of
       Planned g \<Rightarrow> execute_next g
     | Rejected g \<Rightarrow> Returned g
     | Failed e g \<Rightarrow> Raised e g)"
proof -
  have "py_or (which (os (prepared g0)) ''apktool'') (which (os (prepared g0)) ''apktool.bat'') = Some a"
    using assms(1) by (simp add: prepared_fields)
  then show ?thesis
    using assms(2) unfolding start_mode_def Let_def prepared_def [symmetric]
    by (simp add: prepared_fields save_settings_def emit_def split: option.splits)
qed

lemma executor_for_prepared: "executor_for (os (prepared g0)) a = executor_for (os g0) a"
  by (simp add: executor_for_def prepared_fields Let_def split: option.splits)

lemma execute_next_launch:
  assumes "current_index g < length (commands g)" "commands g ! current_index g = cmd" "cmd \<noteq> []"
  shows "execute_next g =
     Returned (g\<lparr>effects := effects g @ [ConsoleAppend (''>> '' @ str_join '' '' cmd),
                                           ProcessStart (hd cmd) (tl cmd)],
                 current_index := current_index g + 1\<rparr>)"
  using assms by (cases cmd) (simp_all add: execute_next_def emit_def Let_def)

lemma plan_dump_ok:
  assumes "settings g ''dump_file'' = Some apk" "settings g ''dump_out'' = Some out"
    "apk \<noteq> []" "out \<noteq> []"
    "target = os_path_normpath (os_path_join out [fst (os_path_splitext (os_path_basename apk))])"
    "makedirs_error (os g) target = None"
  shows "plan_dump ex g =
     Planned (g\<lparr>os := (os g)\<lparr>dirs := insert target (dirs (os g))\<rparr>,
               commands := commands g @ [ex @ [''d'', ''-f'', apk, ''-o'', target]]\<rparr>)"
  using assms by (simp add: plan_dump_def getitem_def append_command_def Let_def)

lemma start_mode_dump_planned:
  assumes "page g0 = 0"
    and "py_or (which (os g0) ''apktool'') (which (os g0) ''apktool.bat'') = Some a" and "a \<noteq> []"
    and "settings g0 ''dump_file'' = Some apk" and "settings g0 ''dump_out'' = Some out"
    and "apk \<noteq> []" and "out \<noteq> []"
    and "target = os_path_normpath (os_path_join out [fst (os_path_splitext (os_path_basename apk))])"
    and "makedirs_error (os g0) target = None"
    and "cmd = executor_for (os g0) a @ [''d'', ''-f'', apk, ''-o'', target]"
  shows "start_mode g0 =
     Returned ((prepared g0)
       \<lparr>os := (os (prepared g0))\<lparr>dirs := insert target (dirs (os g0))\<rparr>,
        commands := [cmd],
        effects := effects (prepared g0) @
          [ConsoleAppend (''>> '' @ str_join '' '' cmd), ProcessStart (hd cmd) (tl cmd)],
        current_index := 1\<rparr>)"
proof -
  let ?g = "(prepared g0)\<lparr>os := (os (prepared g0))\<lparr>dirs := insert target (dirs (os (prepared g0)))\<rparr>,
               commands := commands (prepared g0) @ [cmd]\<rparr>"
  have plan: "plan_dump (executor_for (os (prepared g0)) a) (prepared g0) = Planned ?g"
    using assms(4-10) by (simp add: plan_dump_ok [where target = target] prepared_fields executor_for_prepared)
  have ne: "cmd \<noteq> []" using assms(10) by simp
  have "start_mode g0 = execute_next ?g"
    using assms(1) plan by (simp add: start_mode_found [OF assms(2,3)])
  also have "\<dots> = Returned (?g\<lparr>effects := effects ?g @ [ConsoleAppend (''>> '' @ str_join '' '' cmd),
                                           ProcessStart (hd cmd) (tl cmd)],
                 current_index := current_index ?g + 1\<rparr>)"
    by (rule execute_next_launch) (simp_all add: prepared_fields ne)
  finally show ?thesis
    by (simp add: prepared_fields)
qed

subsection \<open>Dump mode\<close>

text \<open>
  C7. On the Dump page, with apktool found, a non-empty source package path and a
  non-empty output directory, and a target directory that can be made: the target is the
  output directory joined with the base name of the package without its extension (the
  joined path in normal form), it is among the directories afterwards, and the queue is
  the one command \<open>executor d -f source -o target\<close>, which is the process started.
\<close>

theorem dump_queues_one_command:
  assumes "page g0 = 0"
    and "py_or (which (os g0) ''apktool'') (which (os g0) ''apktool.bat'') = Some a" and "a \<noteq> []"
    and "settings g0 ''dump_file'' = Some apk" and "settings g0 ''dump_out'' = Some out"
    and "apk \<noteq> []" and "out \<noteq> []"
    and "target = os_path_normpath (os_path_join out [fst (os_path_splitext (os_path_basename apk))])"
    and "makedirs_error (os g0) target = None"
    and "cmd = executor_for (os g0) a @ [''d'', ''-f'', apk, ''-o'', target]"
  shows "raised (start_mode g0) = None
    \<and> commands (state_of (start_mode g0)) = [cmd]
    \<and> dirs (os (state_of (start_mode g0))) = insert target (dirs (os g0))
    \<and> starts (effects (state_of (start_mode g0))) = starts (effects g0) @ [(hd cmd, tl cmd)]"
  using start_mode_dump_planned [OF assms] by (simp add: prepared_fields starts_append)

lemma py_or_Some: "a \<noteq> [] \<Longrightarrow> py_or (Some a) b = Some a"
  by (simp add: py_or_def truthy_def)

lemma demo_world_facts:
  "which demo_world ''apktool'' = Some ''/usr/bin/apktool''"
  "which demo_world ''java'' = None"
  "py_or (which demo_world ''apktool'') (which demo_world ''apktool.bat'') = Some ''/usr/bin/apktool''"
  "executor_for demo_world ''/usr/bin/apktool'' = [''/usr/bin/apktool'']"
  "makedirs_error demo_world p = None"
  "remove_error demo_world p = None"
  "dirs demo_world = {}"
  "config demo_world = None"
  "save_error demo_world = None"
  "platform_system demo_world = ''Linux''"
  "files demo_world = {''/x/MyApp.apk'', ''/x/aligned_MyApp.apk'', ''/x/signed_MyApp.apk''}"
  by (simp_all add: demo_world_def py_or_def truthy_def executor_for_def)

lemma demo_dump_facts:
  "page demo_dump = 0" "os demo_dump = demo_world" "effects demo_dump = []"
  "settings demo_dump ''dump_file'' = Some ''/tmp/app.apk''"
  "settings demo_dump ''dump_out'' = Some ''/out''"
  by (simp_all add: demo_dump_def with_settings_def init_gui_def load_settings_def
      demo_world_facts map_add_def)

theorem dump_queues_one_command_witness:
  "raised (start_mode demo_dump) = None
   \<and> commands (state_of (start_mode demo_dump))
       = [[''/usr/bin/apktool'', ''d'', ''-f'', ''/tmp/app.apk'', ''-o'', ''/out/app'']]
   \<and> dirs (os (state_of (start_mode demo_dump))) = {''/out/app''}
   \<and> starts (effects (state_of (start_mode demo_dump)))
       = [(''/usr/bin/apktool'', [''d'', ''-f'', ''/tmp/app.apk'', ''-o'', ''/out/app''])]"
proof -
  have a: "py_or (which (os demo_dump) ''apktool'') (which (os demo_dump) ''apktool.bat'')
      = Some ''/usr/bin/apktool''"
    by (simp add: demo_dump_facts demo_world_facts py_or_Some)
  have t: "os_path_normpath (os_path_join ''/out''
      [fst (os_path_splitext (os_path_basename ''/tmp/app.apk''))]) = ''/out/app''"
    by code_simp
  have m: "makedirs_error (os demo_dump) ''/out/app'' = None"
    by (simp add: demo_dump_facts demo_world_facts)
  show ?thesis
    using dump_queues_one_command [OF demo_dump_facts(1) a _ demo_dump_facts(4,5) _ _
        t [symmetric] m refl]
    by (simp add: demo_dump_facts demo_world_facts)
qed

subsection \<open>Pack mode: helper lemmas\<close>

lemma wrapped_eq: "wrap (Str x) = Lst l \<Longrightarrow> wrapped x args = Inr (l @ args)"
  by (simp add: wrapped_def)

lemma plan_pack_ok:
  assumes "settings g ''pack_dir'' = Some proj" "settings g ''keystore_path'' = Some ks"
    "settings g ''keystore_pass'' = Some ksp" "proj \<noteq> []" "ks \<noteq> []" "ksp \<noteq> []"
    "settings g ''sdk_path'' = Some sdk" "locate_tools (os g) sdk = Inr (za, asgn)"
    "wrap (Str za) = Lst w2" "wrap (Str asgn) = Lst w3"
    "apkname = fst (os_path_splitext (os_path_basename proj)) @ ''.apk''"
    "built = os_path_normpath (os_path_join (os_path_dirname proj) [apkname])"
    "aligned = os_path_normpath (os_path_join (os_path_dirname proj) [''aligned_'' @ apkname])"
    "signed = os_path_normpath (os_path_join (os_path_dirname proj) [''signed_'' @ apkname])"
  shows "plan_pack ex g =
     Planned (g\<lparr>built_apk := Some built, aligned_apk := Some aligned,
               commands := commands g @
                 [ex @ [''b'', proj, ''-o'', built],
                  w2 @ [''-v'', ''-p'', ''4'', built, aligned],
                  w3 @ [''sign'', ''-v'', ''--ks'', ks, ''--ks-pass'', ''pass:'' @ ksp,
                        ''--out'', signed, aligned]]\<rparr>)"
  using assms
  by (simp add: plan_pack_def getitem_def append_command_def Let_def reject_def wrapped_eq)



lemma locate_tools_prepared: "locate_tools (os (prepared g0)) sdk = locate_tools (os g0) sdk"
  by (simp add: locate_tools_def locate_tools_with_def prepared_fields)

lemma start_mode_pack_planned:
  assumes "page g0 = 1"
    and "py_or (which (os g0) ''apktool'') (which (os g0) ''apktool.bat'') = Some a" and "a \<noteq> []"
    and "settings g0 ''pack_dir'' = Some proj" and "settings g0 ''keystore_path'' = Some ks"
    and "settings g0 ''keystore_pass'' = Some ksp" and "proj \<noteq> []" and "ks \<noteq> []" and "ksp \<noteq> []"
    and "settings g0 ''sdk_path'' = Some sdk" and "locate_tools (os g0) sdk = Inr (za, asgn)"
    and "wrap (Str za) = Lst w2" and "wrap (Str asgn) = Lst w3"
    and "apkname = fst (os_path_splitext (os_path_basename proj)) @ ''.apk''"
    and "built = os_path_normpath (os_path_join (os_path_dirname proj) [apkname])"
    and "aligned = os_path_normpath (os_path_join (os_path_dirname proj) [''aligned_'' @ apkname])"
    and "signed = os_path_normpath (os_path_join (os_path_dirname proj) [''signed_'' @ apkname])"
    and "c1 = executor_for (os g0) a @ [''b'', proj, ''-o'', built]"
  shows "start_mode g0 =
     Returned ((prepared g0)\<lparr>built_apk := Some built, aligned_apk := Some aligned,
        commands :=
          [c1, w2 @ [''-v'', ''-p'', ''4'', built, aligned],
           w3 @ [''sign'', ''-v'', ''--ks'', ks, ''--ks-pass'', ''pass:'' @ ksp,
                 ''--out'', signed, aligned]],
        effects := effects (prepared g0) @
          [ConsoleAppend (''>> '' @ str_join '' '' c1), ProcessStart (hd c1) (tl c1)],
        current_index := 1\<rparr>)"
proof -
  let ?g = "(prepared g0)\<lparr>built_apk := Some built, aligned_apk := Some aligned,
        commands := commands (prepared g0) @
          [c1, w2 @ [''-v'', ''-p'', ''4'', built, aligned],
           w3 @ [''sign'', ''-v'', ''--ks'', ks, ''--ks-pass'', ''pass:'' @ ksp,
                 ''--out'', signed, aligned]]\<rparr>"
  have lt: "locate_tools (os (prepared g0)) sdk = Inr (za, asgn)"
    using assms(11) by (simp add: locate_tools_prepared)
  have plan: "plan_pack (executor_for (os (prepared g0)) a) (prepared g0) = Planned ?g"
    using plan_pack_ok [of "prepared g0" proj ks ksp sdk za asgn w2 w3 apkname built aligned signed
        "executor_for (os (prepared g0)) a"] assms(4-10,12-18) lt
    by (simp add: prepared_fields executor_for_prepared)
  have ne: "c1 \<noteq> []" using assms(18) by simp
  have "start_mode g0 = execute_next ?g"
    using assms(1) plan by (simp add: start_mode_found [OF assms(2,3)])
  also have "\<dots> = Returned (?g\<lparr>effects := effects ?g @ [ConsoleAppend (''>> '' @ str_join '' '' c1),
                                           ProcessStart (hd c1) (tl c1)],
                 current_index := current_index ?g + 1\<rparr>)"
    by (rule execute_next_launch) (simp_all add: prepared_fields ne)
  finally show ?thesis
    by (simp add: prepared_fields)
qed

lemma start_mode_pack_tools_fail:
  assumes "page g0 = 1"
    and "py_or (which (os g0) ''apktool'') (which (os g0) ''apktool.bat'') = Some a" and "a \<noteq> []"
    and "settings g0 ''pack_dir'' = Some proj" and "settings g0 ''keystore_path'' = Some ks"
    and "settings g0 ''keystore_pass'' = Some ksp" and "proj \<noteq> []" and "ks \<noteq> []" and "ksp \<noteq> []"
    and "settings g0 ''sdk_path'' = Some sdk" and "locate_tools (os g0) sdk = Inl e"
  shows "raised (start_mode g0) = Some e
    \<and> starts (effects (state_of (start_mode g0))) = starts (effects g0)
    \<and> run_button (state_of (start_mode g0)) = False"
proof -
  have lt: "locate_tools (os (prepared g0)) sdk = Inl e"
    using assms(11) by (simp add: locate_tools_prepared)
  have "plan_pack (executor_for (os (prepared g0)) a) (prepared g0) =
      Failed e (append_command (executor_for (os (prepared g0)) a @ [''b'', proj, ''-o'',
          os_path_normpath (os_path_join (os_path_dirname proj)
             [fst (os_path_splitext (os_path_basename proj)) @ ''.apk''])])
        ((prepared g0)\<lparr>built_apk := Some (os_path_normpath (os_path_join (os_path_dirname proj)
             [fst (os_path_splitext (os_path_basename proj)) @ ''.apk'']))\<rparr>))"
    using assms(4-10) lt
    by (simp add: plan_pack_def getitem_def append_command_def Let_def prepared_fields)
  then show ?thesis
    using assms(1) by (simp add: start_mode_found [OF assms(2,3)] append_command_def prepared_fields)
qed

lemma locate_tools_raises:
  assumes "sdk \<noteq> []" and "listdir w (os_path_join sdk [''build-tools'']) = r"
    and "r = Inl e \<or> r = Inr []"
  shows "locate_tools w sdk = Inl (if r = Inr [] then IndexError else e)"
  using assms by (auto simp: locate_tools_def locate_tools_with_def)

lemma demo_pack_facts:
  "page (demo_pack w proj sdk) = 1" "os (demo_pack w proj sdk) = w"
  "effects (demo_pack w proj sdk) = []"
  "settings (demo_pack w proj sdk) ''pack_dir'' = Some proj"
  "settings (demo_pack w proj sdk) ''keystore_path'' = Some ''/k.jks''"
  "settings (demo_pack w proj sdk) ''keystore_pass'' = Some ''pw''"
  "settings (demo_pack w proj sdk) ''sdk_path'' = Some sdk"
  by (simp_all add: demo_pack_def with_settings_def switch_mode_def init_gui_def
      load_settings_def map_add_def split: option.splits)

subsection \<open>The tool locator\<close>




subsection \<open>Pack mode\<close>

text \<open>
  C2 (as the code has it). On the Pack page, with apktool found, the three fields
  non-empty and the tools located, the three artifact paths depend on the project
  directory alone: with the package name being the base name of the project directory
  without its extension followed by \<open>.apk\<close>, the built, aligned and signed paths are the
  project directory's parent joined with the package name, with \<open>aligned_\<close> and with
  \<open>signed_\<close> before it, in normal form. They are what the run state records and what the
  three queued commands are given.
\<close>

theorem pack_paths_from_project:
  assumes "page g0 = 1"
    and "py_or (which (os g0) ''apktool'') (which (os g0) ''apktool.bat'') = Some a" and "a \<noteq> []"
    and "settings g0 ''pack_dir'' = Some proj" and "settings g0 ''keystore_path'' = Some ks"
    and "settings g0 ''keystore_pass'' = Some ksp" and "proj \<noteq> []" and "ks \<noteq> []" and "ksp \<noteq> []"
    and "settings g0 ''sdk_path'' = Some sdk" and "locate_tools (os g0) sdk = Inr (za, asgn)"
    and "wrap (Str za) = Lst w2" and "wrap (Str asgn) = Lst w3"
    and "apkname = fst (os_path_splitext (os_path_basename proj)) @ ''.apk''"
    and "built = os_path_normpath (os_path_join (os_path_dirname proj) [apkname])"
    and "aligned = os_path_normpath (os_path_join (os_path_dirname proj) [''aligned_'' @ apkname])"
    and "signed = os_path_normpath (os_path_join (os_path_dirname proj) [''signed_'' @ apkname])"
  shows "raised (start_mode g0) = None
    \<and> built_apk (state_of (start_mode g0)) = Some built
    \<and> aligned_apk (state_of (start_mode g0)) = Some aligned
    \<and> commands (state_of (start_mode g0)) =
         [executor_for (os g0) a @ [''b'', proj, ''-o'', built],
          w2 @ [''-v'', ''-p'', ''4'', built, aligned],
          w3 @ [''sign'', ''-v'', ''--ks'', ks, ''--ks-pass'', ''pass:'' @ ksp,
                ''--out'', signed, aligned]]"
  using start_mode_pack_planned [OF assms refl] by simp

lemma demo_pack_apktool:
  "py_or (which (os (demo_pack demo_world proj sdk)) ''apktool'')
     (which (os (demo_pack demo_world proj sdk)) ''apktool.bat'') = Some ''/usr/bin/apktool''"
  by (simp add: demo_pack_facts demo_world_facts py_or_Some)

lemma demo_pack_tools:
  "locate_tools (os (demo_pack demo_world proj [])) [] = Inr (''zipalign'', ''apksigner'')"
  "wrap (Str ''zipalign'') = Lst [''cmd'', ''/c'', ''zipalign'']"
  "wrap (Str ''apksigner'') = Lst [''cmd'', ''/c'', ''apksigner'']"
  by (simp_all add: locate_tools_def locate_tools_with_def wrap_def)

theorem pack_paths_from_project_witness:
  "raised (start_mode (demo_pack demo_world ''/x/MyApp'' [])) = None
   \<and> built_apk (state_of (start_mode (demo_pack demo_world ''/x/MyApp'' []))) = Some ''/x/MyApp.apk''
   \<and> aligned_apk (state_of (start_mode (demo_pack demo_world ''/x/MyApp'' [])))
       = Some ''/x/aligned_MyApp.apk''
   \<and> commands (state_of (start_mode (demo_pack demo_world ''/x/MyApp'' []))) =
       [[''/usr/bin/apktool'', ''b'', ''/x/MyApp'', ''-o'', ''/x/MyApp.apk''],
        [''cmd'', ''/c'', ''zipalign'', ''-v'', ''-p'', ''4'', ''/x/MyApp.apk'',
         ''/x/aligned_MyApp.apk''],
        [''cmd'', ''/c'', ''apksigner'', ''sign'', ''-v'', ''--ks'', ''/k.jks'', ''--ks-pass'',
         ''pass:pw'', ''--out'', ''/x/signed_MyApp.apk'', ''/x/aligned_MyApp.apk'']]"
proof -
  have n: "fst (os_path_splitext (os_path_basename ''/x/MyApp'')) @ ''.apk'' = ''MyApp.apk''"
    by code_simp
  have b: "os_path_normpath (os_path_join (os_path_dirname ''/x/MyApp'') [''MyApp.apk''])
      = ''/x/MyApp.apk''"
    by code_simp
  have al: "os_path_normpath (os_path_join (os_path_dirname ''/x/MyApp'')
      [''aligned_'' @ ''MyApp.apk'']) = ''/x/aligned_MyApp.apk''"
    by code_simp
  have sg: "os_path_normpath (os_path_join (os_path_dirname ''/x/MyApp'')
      [''signed_'' @ ''MyApp.apk'']) = ''/x/signed_MyApp.apk''"
    by code_simp
  show ?thesis
    using pack_paths_from_project [OF demo_pack_facts(1) demo_pack_apktool _ demo_pack_facts(4,5,6)
        _ _ _ demo_pack_facts(7) demo_pack_tools n [symmetric] b [symmetric] al [symmetric]
        sg [symmetric]]
    by (simp add: demo_pack_facts demo_world_facts)
qed

text \<open>
  C2 as stated fails: the package name is not the base name of the project directory
  followed by \<open>.apk\<close>. For the project directory \<open>/x/My.App\<close> the built path is
  \<open>/x/My.apk\<close>, while the parent joined with base name and \<open>.apk\<close> is \<open>/x/My.App.apk\<close>.
\<close>

theorem pack_paths_dotted_counterexample:
  "built_apk (state_of (start_mode (demo_pack demo_world ''/x/My.App'' []))) = Some ''/x/My.apk''
   \<and> os_path_join (os_path_dirname ''/x/My.App'') [os_path_basename ''/x/My.App'' @ ''.apk'']
       = ''/x/My.App.apk''"
proof -
  have n: "fst (os_path_splitext (os_path_basename ''/x/My.App'')) @ ''.apk'' = ''My.apk''"
    by code_simp
  have b: "os_path_normpath (os_path_join (os_path_dirname ''/x/My.App'') [''My.apk''])
      = ''/x/My.apk''"
    by code_simp
  have c: "os_path_join (os_path_dirname ''/x/My.App'') [os_path_basename ''/x/My.App'' @ ''.apk'']
      = ''/x/My.App.apk''"
    by code_simp
  show ?thesis
    using start_mode_pack_planned [OF demo_pack_facts(1) demo_pack_apktool _ demo_pack_facts(4,5,6)
        _ _ _ demo_pack_facts(7) demo_pack_tools n [symmetric] b [symmetric] refl refl refl] c
    by simp
qed

text \<open>
  C10. A Pack run (apktool found, the three fields non-empty) with a non-empty SDK root
  whose build-tools directory cannot be listed, or is listed as empty, ends in the
  exception of the listing, or in \<open>IndexError\<close> for the empty listing; there is no fall
  back to the bare tool names, no process is started, and the Run button stays disabled.
\<close>

theorem pack_sdk_without_build_tools_raises:
  assumes "page g0 = 1"
    and "py_or (which (os g0) ''apktool'') (which (os g0) ''apktool.bat'') = Some a" and "a \<noteq> []"
    and "settings g0 ''pack_dir'' = Some proj" and "settings g0 ''keystore_path'' = Some ks"
    and "settings g0 ''keystore_pass'' = Some ksp" and "proj \<noteq> []" and "ks \<noteq> []" and "ksp \<noteq> []"
    and "settings g0 ''sdk_path'' = Some sdk" and "sdk \<noteq> []"
    and "listdir (os g0) (os_path_join sdk [''build-tools'']) = r"
    and "r = Inl e \<or> r = Inr []"
  shows "raised (start_mode g0) = Some (if r = Inr [] then IndexError else e)
    \<and> starts (effects (state_of (start_mode g0))) = starts (effects g0)
    \<and> run_button (state_of (start_mode g0)) = False"
  using start_mode_pack_tools_fail [OF assms(1-10) locate_tools_raises [OF assms(11-13)]] .

theorem pack_sdk_without_build_tools_raises_witness:
  "raised (start_mode (demo_pack demo_world ''/x/MyApp'' ''/nosdk''))
     = Some (FileNotFoundError ''/nosdk/build-tools'')
   \<and> starts (effects (state_of (start_mode (demo_pack demo_world ''/x/MyApp'' ''/nosdk'')))) = []
   \<and> raised (start_mode (demo_pack (demo_world\<lparr>listdir := (\<lambda>d. Inr [])\<rparr>) ''/x/MyApp'' ''/sdk''))
     = Some IndexError
   \<and> starts (effects (state_of (start_mode
        (demo_pack (demo_world\<lparr>listdir := (\<lambda>d. Inr [])\<rparr>) ''/x/MyApp'' ''/sdk'')))) = []"
proof -
  let ?w = "demo_world\<lparr>listdir := (\<lambda>d. Inr [])\<rparr>"
  have j: "os_path_join ''/nosdk'' [''build-tools''] = ''/nosdk/build-tools''"
    by code_simp
  have l1: "listdir (os (demo_pack demo_world ''/x/MyApp'' ''/nosdk''))
      (os_path_join ''/nosdk'' [''build-tools'']) = Inl (FileNotFoundError ''/nosdk/build-tools'')"
    by (simp add: demo_pack_facts j) (simp add: demo_world_def)
  have l2: "listdir (os (demo_pack ?w ''/x/MyApp'' ''/sdk''))
      (os_path_join ''/sdk'' [''build-tools'']) = Inr []"
    by (simp add: demo_pack_facts)
  have a2: "py_or (which (os (demo_pack ?w ''/x/MyApp'' ''/sdk'')) ''apktool'')
     (which (os (demo_pack ?w ''/x/MyApp'' ''/sdk'')) ''apktool.bat'') = Some ''/usr/bin/apktool''"
    by (simp add: demo_pack_facts demo_world_facts py_or_Some)
  show ?thesis
    using pack_sdk_without_build_tools_raises [OF demo_pack_facts(1) demo_pack_apktool _
        demo_pack_facts(4,5,6) _ _ _ demo_pack_facts(7) _ l1]
      pack_sdk_without_build_tools_raises [OF demo_pack_facts(1) a2 _
        demo_pack_facts(4,5,6) _ _ _ demo_pack_facts(7) _ l2]
    by (simp add: demo_pack_facts)
qed

subsection \<open>The runner\<close>

lemma deliver_append: "deliver (xs @ ys) r = deliver ys (deliver xs r)"
  by (induction xs arbitrary: r) simp_all

lemma deliver_outputs:
  "deliver (map ReadyRead outs) (Returned g)
     = Returned (g\<lparr>effects := effects g @ concat (map chunk_effects outs)\<rparr>)"
proof (induction outs arbitrary: g)
  case Nil
  then show ?case by simp
next
  case (Cons d outs)
  show ?case
    by (cases d) (simp_all add: on_output_def emit_def Cons.IH)
qed

lemma remove_if_file_effects: "effects (state_of (remove_if_file p g)) = effects g"
  by (simp add: remove_if_file_def os_remove_def split: option.splits)

lemma execute_next_drained_effects:
  assumes "length (commands g) \<le> current_index g"
  shows "effects (state_of (execute_next g)) = effects g @ [Information ''Done'' ''All tasks completed'']"
proof -
  let ?g1 = "emit (Information ''Done'' ''All tasks completed'') g"
  have e1: "effects ?g1 = effects g @ [Information ''Done'' ''All tasks completed'']"
    by (simp add: emit_def)
  show ?thesis
  proof (cases "page g = 1")
    case False
    then show ?thesis using assms by (simp add: execute_next_def e1)
  next
    case True
    show ?thesis
    proof (cases "remove_if_file (built_apk g) ?g1")
      case (Raised e g')
      then have "effects g' = effects ?g1"
        using remove_if_file_effects [of "built_apk g" ?g1] by simp
      then show ?thesis using assms True Raised by (simp add: execute_next_def e1 emit_def)
    next
      case (Returned g')
      then have g': "effects g' = effects ?g1"
        using remove_if_file_effects [of "built_apk g" ?g1] by simp
      show ?thesis
      proof (cases "remove_if_file (aligned_apk g') g'")
        case (Raised e g'')
        then have "effects g'' = effects g'"
          using remove_if_file_effects [of "aligned_apk g'" g'] by simp
        then show ?thesis using assms True Returned Raised g'
          by (simp add: execute_next_def e1 emit_def)
      next
        case (Returned g'')
        then have "effects g'' = effects g'"
          using remove_if_file_effects [of "aligned_apk g'" g'] by simp
        then show ?thesis using assms True \<open>remove_if_file (built_apk g) ?g1 = Returned g'\<close> Returned g'
          by (simp add: execute_next_def e1 emit_def)
      qed
    qed
  qed
qed

lemma run_from_index:
  assumes "length runs = length (commands g) - current_index g"
    and "current_index g \<le> length (commands g)"
    and "[] \<notin> set (commands g)"
  shows "effects (state_of (deliver (concat (map process_signals runs)) (execute_next g)))
     = effects g
       @ concat (map2 command_effects (drop (current_index g) (commands g)) runs)
       @ [Information ''Done'' ''All tasks completed'']"
  using assms
proof (induction runs arbitrary: g)
  case Nil
  then show ?case by (simp add: execute_next_drained_effects)
next
  case (Cons b runs)
  obtain outs code status where b: "b = (outs, code, status)" by (cases b)
  let ?i = "current_index g"
  let ?cmd = "commands g ! ?i"
  have lt: "?i < length (commands g)" using Cons.prems(1) by simp
  have ne: "?cmd \<noteq> []" using Cons.prems(3) lt by (metis nth_mem)
  let ?g1 = "g\<lparr>effects := effects g @ [ConsoleAppend (''>> '' @ str_join '' '' ?cmd),
                                           ProcessStart (hd ?cmd) (tl ?cmd)],
                 current_index := ?i + 1\<rparr>"
  let ?g2 = "emit (ConsoleAppend (finished_line code status))
               (?g1\<lparr>effects := effects ?g1 @ concat (map chunk_effects outs)\<rparr>)"
  have launch: "execute_next g = Returned ?g1"
    by (rule execute_next_launch [OF lt refl ne])
  have "deliver (concat (map process_signals (b # runs))) (execute_next g)
      = deliver (concat (map process_signals runs)) (execute_next ?g2)"
    by (simp add: b launch deliver_append deliver_outputs on_finished_def)
  moreover have "effects (state_of (deliver (concat (map process_signals runs)) (execute_next ?g2)))
      = effects ?g2 @ concat (map2 command_effects (drop (current_index ?g2) (commands ?g2)) runs)
        @ [Information ''Done'' ''All tasks completed'']"
    by (rule Cons.IH) (use Cons.prems lt in \<open>simp_all add: emit_def\<close>)
  moreover have "drop ?i (commands g) = ?cmd # drop (Suc ?i) (commands g)"
    using lt by (simp add: Cons_nth_drop_Suc)
  ultimately show ?case
    by (simp add: b emit_def)
qed

text \<open>
  C8. A queue of commands, each with a program token, is run from its start, and each
  process launched sends its output and then its \<open>finished\<close> signal. What is observed is,
  command by command in queue order, the command line and the launch, the output shown,
  and the finished line of that command; then, once, the Done box. So the launch of a
  command comes after the output and the finished line of the one before it, and the
  Done box after as many finished lines as there are commands.
\<close>

theorem queue_runs_in_order:
  assumes "current_index g = 0" and "length runs = length (commands g)"
    and "[] \<notin> set (commands g)"
  shows "effects (state_of (deliver (concat (map process_signals runs)) (execute_next g)))
     = effects g @ concat (map2 command_effects (commands g) runs)
       @ [Information ''Done'' ''All tasks completed'']"
  using run_from_index [of runs g] assms by simp

theorem queue_runs_in_order_witness:
  "effects (state_of (deliver
      (concat (map process_signals
         [([Text ''I: Building'', Text ''  ''], 0, 0), ([Undecodable ''invalid byte''], 1, 0)]))
      (execute_next ((init_gui demo_world)\<lparr>commands := [[''apktool'', ''b''], [''zipalign'']]\<rparr>))))
   = [ConsoleAppend ''>> apktool b'', ProcessStart ''apktool'' [''b''],
      ConsoleAppend ''I: Building'',
      ConsoleAppend ''[Finished] exitCode=0, status=0'',
      ConsoleAppend ''>> zipalign'', ProcessStart ''zipalign'' [],
      ConsoleAppend ''> Error : invalid byte'',
      ConsoleAppend ''[Finished] exitCode=1, status=0'',
      Information ''Done'' ''All tasks completed'']"
proof -
  let ?g = "(init_gui demo_world)\<lparr>commands := [[''apktool'', ''b''], [''zipalign'']]\<rparr>"
  have g: "current_index ?g = 0" "commands ?g = [[''apktool'', ''b''], [''zipalign'']]"
    "effects ?g = []"
    by (simp_all add: init_gui_def load_settings_def demo_world_facts)
  have f: "finished_line 0 0 = ''[Finished] exitCode=0, status=0''"
    "finished_line 1 0 = ''[Finished] exitCode=1, status=0''"
    by code_simp+
  have t: "strip_nonempty ''I: Building''" "\<not> strip_nonempty ''  ''"
    by code_simp+
  show ?thesis
    using queue_runs_in_order [of ?g
        "[([Text ''I: Building'', Text ''  ''], 0, 0), ([Undecodable ''invalid byte''], 1, 0)]"]
    by (simp add: g f t)
qed

subsection \<open>The cleaner\<close>

lemma split_sep_nonempty: "split_sep p \<noteq> []"
  by (induction p) (auto split: list.splits)

lemma split_sep_plain: "CHR ''/'' \<notin> set n \<Longrightarrow> split_sep n = [n]"
  by (induction n) auto

lemma split_sep_slash_plain:
  "CHR ''/'' \<notin> set n \<Longrightarrow> split_sep (p @ CHR ''/'' # n) = split_sep p @ [n]"
  by (induction p) (auto simp: split_sep_plain split_sep_nonempty split: list.splits)

lemma str_join_snoc:
  "str_join sep (xs @ [n]) = (if xs = [] then n else str_join sep xs @ sep @ n)"
  by (induction sep xs rule: str_join.induct) auto

lemma norm_step_plain:
  "n \<noteq> [] \<Longrightarrow> n \<noteq> ''.'' \<Longrightarrow> n \<noteq> ''..'' \<Longrightarrow> norm_step s new n = new @ [n]"
  by (simp add: norm_step_def)

lemma rfind_absent: "c \<notin> set p \<Longrightarrow> rfind c p = - 1"
  by (simp add: rfind_def)

lemma basename_after_slash:
  assumes "CHR ''/'' \<notin> set n" and "x = [] \<or> last x = CHR ''/''"
  shows "os_path_basename (x @ n) = n"
proof (cases "x = []")
  case True
  then show ?thesis using assms(1) by (simp add: os_path_basename_def rfind_absent)
next
  case False
  then have l: "last x = CHR ''/''" using assms(2) by simp
  then obtain y where x: "x = y @ ''/''" using False by (metis append_butlast_last_id)
  have "takeWhile (\<lambda>c. c \<noteq> CHR ''/'') (rev (x @ n)) = rev n"
    using assms(1) by (simp add: x takeWhile_append)
  then have "rfind (CHR ''/'') (x @ n) = int (length x) - 1"
    by (simp add: rfind_def x)
  then show ?thesis using False by (simp add: os_path_basename_def)
qed

lemma normpath_ends_with_plain:
  assumes "CHR ''/'' \<notin> set n" "n \<noteq> []" "n \<noteq> ''.''" "n \<noteq> ''..''"
    and "path = n \<or> path = p @ CHR ''/'' # n"
  shows "\<exists>x. os_path_normpath path = x @ n \<and> (x = [] \<or> last x = CHR ''/'')"
proof -
  have ne: "path \<noteq> []" using assms(2,5) by auto
  obtain m where m: "foldl (norm_step (initial_slashes path)) [] (split_sep path) = m @ [n]"
    using assms by (auto simp: split_sep_plain split_sep_slash_plain norm_step_plain)
  let ?s = "replicate (initial_slashes path) (CHR ''/'')"
  have "os_path_normpath path = ?s @ str_join ''/'' (m @ [n])"
    using ne assms(2) by (simp add: os_path_normpath_def Let_def m str_join_snoc)
  then have "os_path_normpath path = (?s @ (if m = [] then [] else str_join ''/'' m @ ''/'')) @ n"
    by (simp add: str_join_snoc)
  moreover have "(?s @ (if m = [] then [] else str_join ''/'' m @ ''/'')) = []
      \<or> last (?s @ (if m = [] then [] else str_join ''/'' m @ ''/'')) = CHR ''/''"
    by (cases "initial_slashes path") auto
  ultimately show ?thesis by blast
qed

lemma join_plain:
  assumes "CHR ''/'' \<notin> set n" "n \<noteq> []"
  shows "os_path_join d [n] = n \<or> (\<exists>p. os_path_join d [n] = p @ CHR ''/'' # n)"
proof -
  have s: "\<not> startswith n ''/''"
    using assms by (cases n) (auto simp: startswith_def)
  show ?thesis
  proof (cases "d = [] \<or> endswith d ''/''")
    case True
    then show ?thesis
    proof
      assume "d = []"
      then show ?thesis using s by (simp add: os_path_join_def join_step_def)
    next
      assume e: "endswith d ''/''"
      then have "d = take (length d - 1) d @ ''/''"
        by (auto simp: endswith_def) (metis append_take_drop_id)
      then obtain p where "d = p @ ''/''" ..
      then show ?thesis using s e by (auto simp: os_path_join_def join_step_def)
    qed
  next
    case False
    then show ?thesis using s by (auto simp: os_path_join_def join_step_def)
  qed
qed

lemma basename_normpath_join:
  assumes "CHR ''/'' \<notin> set n" "n \<noteq> []" "n \<noteq> ''.''" "n \<noteq> ''..''"
  shows "os_path_basename (os_path_normpath (os_path_join d [n])) = n"
proof -
  obtain p where "os_path_join d [n] = n \<or> os_path_join d [n] = p @ CHR ''/'' # n"
    using join_plain [OF assms(1,2)] by blast
  then obtain x where "os_path_normpath (os_path_join d [n]) = x @ n" "x = [] \<or> last x = CHR ''/''"
    using normpath_ends_with_plain [OF assms] by blast
  then show ?thesis using basename_after_slash [OF assms(1)] by simp
qed

lemma basename_no_sep: "CHR ''/'' \<notin> set (os_path_basename p)"
proof -
  let ?n = "rev (takeWhile (\<lambda>c. c \<noteq> CHR ''/'') (rev p))"
  let ?x = "rev (dropWhile (\<lambda>c. c \<noteq> CHR ''/'') (rev p))"
  have p: "p = ?x @ ?n"
    by (metis rev_append rev_rev_ident takeWhile_dropWhile_id)
  have n: "CHR ''/'' \<notin> set ?n"
    by (auto dest: set_takeWhileD)
  have x: "?x = [] \<or> last ?x = CHR ''/''"
    using hd_dropWhile [of "\<lambda>c. c \<noteq> CHR ''/''" "rev p"] by (auto simp: last_rev)
  have "os_path_basename (?x @ ?n) = ?n"
    by (rule basename_after_slash [OF n x])
  then have "os_path_basename p = ?n" using p by simp
  then show ?thesis using n by simp
qed

lemma splitext_stem_no_sep:
  "CHR ''/'' \<notin> set q \<Longrightarrow> CHR ''/'' \<notin> set (fst (os_path_splitext q))"
  by (auto simp: os_path_splitext_def Let_def dest: in_set_takeD)

lemma normpath_nonempty: "os_path_normpath p \<noteq> []"
  by (simp add: os_path_normpath_def Let_def)


lemma apkname_plain:
  assumes "apkname = fst (os_path_splitext (os_path_basename proj)) @ ''.apk''"
    and "CHR ''/'' \<notin> set pre"
  shows "CHR ''/'' \<notin> set (pre @ apkname)" "pre @ apkname \<noteq> []"
    "pre @ apkname \<noteq> ''.''" "pre @ apkname \<noteq> ''..''"
proof -
  show "CHR ''/'' \<notin> set (pre @ apkname)"
    using assms splitext_stem_no_sep [OF basename_no_sep [of proj]] by simp
  have l: "4 \<le> length (pre @ apkname)" using assms(1) by simp
  have "length (pre @ apkname) \<noteq> length ([]::string)"
    and "length (pre @ apkname) \<noteq> length ''.''"
    and "length (pre @ apkname) \<noteq> length ''..''"
    using l by auto
  then show "pre @ apkname \<noteq> []" "pre @ apkname \<noteq> ''.''" "pre @ apkname \<noteq> ''..''"
    by metis+
qed

lemma pack_paths_distinct:
  assumes "apkname = fst (os_path_splitext (os_path_basename proj)) @ ''.apk''"
    and "built = os_path_normpath (os_path_join (os_path_dirname proj) [apkname])"
    and "aligned = os_path_normpath (os_path_join (os_path_dirname proj) [''aligned_'' @ apkname])"
    and "signed = os_path_normpath (os_path_join (os_path_dirname proj) [''signed_'' @ apkname])"
  shows "signed \<noteq> built" "signed \<noteq> aligned" "aligned \<noteq> built"
proof -
  have b: "os_path_basename built = apkname"
    using basename_normpath_join [OF apkname_plain [OF assms(1), of "[]"]] assms(2) by simp
  have a: "os_path_basename aligned = ''aligned_'' @ apkname"
    using basename_normpath_join [OF apkname_plain [OF assms(1), of "''aligned_''"]] assms(3) by simp
  have s: "os_path_basename signed = ''signed_'' @ apkname"
    using basename_normpath_join [OF apkname_plain [OF assms(1), of "''signed_''"]] assms(4) by simp
  show "signed \<noteq> built" using b s by auto
  show "signed \<noteq> aligned" using a s by auto
  show "aligned \<noteq> built" using a b by auto
qed

lemma execute_next_keeps_files:
  assumes "\<not> (length (commands g) \<le> current_index g \<and> page g = 1)"
  shows "files (os (state_of (execute_next g))) = files (os g)"
proof (cases "length (commands g) \<le> current_index g")
  case True
  then show ?thesis using assms by (simp add: execute_next_def emit_def)
next
  case False
  then show ?thesis
    by (cases "commands g ! current_index g") (simp_all add: execute_next_def emit_def Let_def)
qed

lemma execute_next_cleans:
  assumes "length (commands g) \<le> current_index g" and "page g = 1"
    and "built_apk g = Some b" and "aligned_apk g = Some a" and "b \<noteq> []" and "a \<noteq> []"
    and "remove_error (os g) b = None" and "remove_error (os g) a = None"
  shows "raised (execute_next g) = None"
    and "files (os (state_of (execute_next g))) = files (os g) - {b, a}"
    and "run_button (state_of (execute_next g))"
  using assms
  by (auto simp: execute_next_def remove_if_file_def os_remove_def emit_def)

text \<open>
  What \<open>execute_next\<close> does to the files, for the paths planned for a project directory.
  It removes a file only when the queue is used up and the Pack page is the one shown at
  that moment; otherwise the files are as before. When it is, and the run state holds
  the built and the aligned path, and removing them does not fail, \<open>execute_next\<close>
  returns (also when one of them is not a file: the guard skips it) and the files
  afterwards are the files before without these two paths; the signed path is a file
  afterwards exactly when it was one before.
\<close>

lemma execute_next_cleanup:
  assumes "apkname = fst (os_path_splitext (os_path_basename proj)) @ ''.apk''"
    and "built = os_path_normpath (os_path_join (os_path_dirname proj) [apkname])"
    and "aligned = os_path_normpath (os_path_join (os_path_dirname proj) [''aligned_'' @ apkname])"
    and "signed = os_path_normpath (os_path_join (os_path_dirname proj) [''signed_'' @ apkname])"
  shows "(\<not> (length (commands g) \<le> current_index g \<and> page g = 1) \<longrightarrow>
            files (os (state_of (execute_next g))) = files (os g))
    \<and> (length (commands g) \<le> current_index g \<and> page g = 1
          \<and> built_apk g = Some built \<and> aligned_apk g = Some aligned
          \<and> remove_error (os g) built = None \<and> remove_error (os g) aligned = None \<longrightarrow>
            raised (execute_next g) = None
          \<and> files (os (state_of (execute_next g))) = files (os g) - {built, aligned}
          \<and> (signed \<in> files (os (state_of (execute_next g))) \<longleftrightarrow> signed \<in> files (os g)))"
proof -
  have ne: "built \<noteq> []" "aligned \<noteq> []"
    using assms(2,3) by (simp_all add: normpath_nonempty)
  have d: "signed \<noteq> built" "signed \<noteq> aligned"
    using pack_paths_distinct [OF assms] by simp_all
  show ?thesis
    using execute_next_keeps_files [of g] execute_next_cleans (1,2) [of g built aligned] ne d
    by auto
qed

lemma demo_pack_started:
  assumes "which w = which demo_world"
  shows "start_mode (demo_pack w ''/x/MyApp'' []) =
     Returned ((prepared (demo_pack w ''/x/MyApp'' []))
       \<lparr>built_apk := Some ''/x/MyApp.apk'', aligned_apk := Some ''/x/aligned_MyApp.apk'',
        commands :=
          [[''/usr/bin/apktool'', ''b'', ''/x/MyApp'', ''-o'', ''/x/MyApp.apk''],
           [''cmd'', ''/c'', ''zipalign'', ''-v'', ''-p'', ''4'', ''/x/MyApp.apk'',
            ''/x/aligned_MyApp.apk''],
           [''cmd'', ''/c'', ''apksigner'', ''sign'', ''-v'', ''--ks'', ''/k.jks'', ''--ks-pass'',
            ''pass:pw'', ''--out'', ''/x/signed_MyApp.apk'', ''/x/aligned_MyApp.apk'']],
        effects := effects (prepared (demo_pack w ''/x/MyApp'' [])) @
          [ConsoleAppend (''>> '' @ str_join '' ''
             [''/usr/bin/apktool'', ''b'', ''/x/MyApp'', ''-o'', ''/x/MyApp.apk'']),
           ProcessStart ''/usr/bin/apktool'' [''b'', ''/x/MyApp'', ''-o'', ''/x/MyApp.apk'']],
        current_index := 1\<rparr>)"
proof -
  have a: "py_or (which (os (demo_pack w ''/x/MyApp'' [])) ''apktool'')
     (which (os (demo_pack w ''/x/MyApp'' [])) ''apktool.bat'') = Some ''/usr/bin/apktool''"
    by (simp add: demo_pack_facts assms demo_world_facts py_or_Some)
  have e: "executor_for (os (demo_pack w ''/x/MyApp'' [])) ''/usr/bin/apktool''
      = [''/usr/bin/apktool'']"
    by (simp add: demo_pack_facts executor_for_def assms demo_world_facts)
  have l: "locate_tools (os (demo_pack w ''/x/MyApp'' [])) [] = Inr (''zipalign'', ''apksigner'')"
    by (simp add: locate_tools_def locate_tools_with_def)
  have n: "fst (os_path_splitext (os_path_basename ''/x/MyApp'')) @ ''.apk'' = ''MyApp.apk''"
    by code_simp
  have b: "os_path_normpath (os_path_join (os_path_dirname ''/x/MyApp'') [''MyApp.apk''])
      = ''/x/MyApp.apk''"
    by code_simp
  have al: "os_path_normpath (os_path_join (os_path_dirname ''/x/MyApp'')
      [''aligned_'' @ ''MyApp.apk'']) = ''/x/aligned_MyApp.apk''"
    by code_simp
  have sg: "os_path_normpath (os_path_join (os_path_dirname ''/x/MyApp'')
      [''signed_'' @ ''MyApp.apk'']) = ''/x/signed_MyApp.apk''"
    by code_simp
  show ?thesis
    using start_mode_pack_planned [OF demo_pack_facts(1) a _ demo_pack_facts(4,5,6)
        _ _ _ demo_pack_facts(7) l demo_pack_tools(2,3) n [symmetric] b [symmetric]
        al [symmetric] sg [symmetric] refl]
    by (simp add: e)
qed

lemma demo_paths:
  "''MyApp.apk'' = fst (os_path_splitext (os_path_basename ''/x/MyApp'')) @ ''.apk''"
  "''/x/MyApp.apk'' = os_path_normpath (os_path_join (os_path_dirname ''/x/MyApp'') [''MyApp.apk''])"
  "''/x/aligned_MyApp.apk''
     = os_path_normpath (os_path_join (os_path_dirname ''/x/MyApp'') [''aligned_'' @ ''MyApp.apk''])"
  "''/x/signed_MyApp.apk''
     = os_path_normpath (os_path_join (os_path_dirname ''/x/MyApp'') [''signed_'' @ ''MyApp.apk''])"
  by code_simp+

lemma demo_pack_state:
  "page (state_of (start_mode (demo_pack demo_world ''/x/MyApp'' []))) = 1"
  "built_apk (state_of (start_mode (demo_pack demo_world ''/x/MyApp'' []))) = Some ''/x/MyApp.apk''"
  "aligned_apk (state_of (start_mode (demo_pack demo_world ''/x/MyApp'' [])))
     = Some ''/x/aligned_MyApp.apk''"
  "length (commands (state_of (start_mode (demo_pack demo_world ''/x/MyApp'' [])))) = 3"
  "current_index (state_of (start_mode (demo_pack demo_world ''/x/MyApp'' []))) = 1"
  "files (os (state_of (start_mode (demo_pack demo_world ''/x/MyApp'' [])))) = files demo_world"
  "remove_error (os (state_of (start_mode (demo_pack demo_world ''/x/MyApp'' []))))
     = remove_error demo_world"
  by (simp_all add: demo_pack_started prepared_fields demo_pack_facts)

lemma execute_next_cleanup_example:
  "files (os (state_of (execute_next
      (all_finished (state_of (start_mode (demo_pack demo_world ''/x/MyApp'' [])))))))
     = {''/x/signed_MyApp.apk''}
   \<and> files (os (state_of (execute_next (state_of (start_mode (demo_pack demo_world ''/x/MyApp'' []))))))
     = {''/x/MyApp.apk'', ''/x/aligned_MyApp.apk'', ''/x/signed_MyApp.apk''}
   \<and> files (os (state_of (execute_next (all_finished (state_of (start_mode demo_dump))))))
     = {''/x/MyApp.apk'', ''/x/aligned_MyApp.apk'', ''/x/signed_MyApp.apk''}"
proof -
  let ?p = "state_of (start_mode (demo_pack demo_world ''/x/MyApp'' []))"
  let ?d = "state_of (start_mode demo_dump)"
  have a: "py_or (which (os demo_dump) ''apktool'') (which (os demo_dump) ''apktool.bat'')
      = Some ''/usr/bin/apktool''"
    by (simp add: demo_dump_facts demo_world_facts py_or_Some)
  have m: "makedirs_error (os demo_dump) t = None" for t
    by (simp add: demo_dump_facts demo_world_facts)
  have d: "page ?d = 0" "files (os ?d) = files demo_world"
    using start_mode_dump_planned [OF demo_dump_facts(1) a _ demo_dump_facts(4,5) _ _ refl m refl]
    by (simp_all add: prepared_fields demo_dump_facts)
  show ?thesis
    using execute_next_cleanup [OF demo_paths, of "all_finished ?p"]
      execute_next_cleanup [OF demo_paths, of ?p]
      execute_next_cleanup [OF demo_paths, of "all_finished ?d"]
    by (auto simp: all_finished_def demo_pack_state d demo_world_facts)
qed

text \<open>
  C5 at a Pack run of \<open>/x/MyApp\<close> during which the user clicks the Dump button, when the
  last command has finished. The run state holds the built and the aligned path, both
  are files, the queue is used up, and \<open>execute_next\<close> returns with the Done box shown
  and the Run button enabled: yet no file is removed, since the page shown is no longer
  the Pack page. The same run with the Pack page left showing removes both and keeps the
  signed package.
\<close>

theorem pack_cleanup_skipped_after_page_switch:
  "built_apk (all_finished (switch_mode 0
      (state_of (start_mode (demo_pack demo_world ''/x/MyApp'' []))))) = Some ''/x/MyApp.apk''
   \<and> aligned_apk (all_finished (switch_mode 0
      (state_of (start_mode (demo_pack demo_world ''/x/MyApp'' []))))) = Some ''/x/aligned_MyApp.apk''
   \<and> raised (execute_next (all_finished (switch_mode 0
      (state_of (start_mode (demo_pack demo_world ''/x/MyApp'' [])))))) = None
   \<and> files (os (state_of (execute_next (all_finished (switch_mode 0
      (state_of (start_mode (demo_pack demo_world ''/x/MyApp'' []))))))))
     = {''/x/MyApp.apk'', ''/x/aligned_MyApp.apk'', ''/x/signed_MyApp.apk''}
   \<and> last (effects (state_of (execute_next (all_finished (switch_mode 0
      (state_of (start_mode (demo_pack demo_world ''/x/MyApp'' []))))))))
     = Information ''Done'' ''All tasks completed''
   \<and> run_button (state_of (execute_next (all_finished (switch_mode 0
      (state_of (start_mode (demo_pack demo_world ''/x/MyApp'' [])))))))
   \<and> files (os (state_of (execute_next (all_finished
      (state_of (start_mode (demo_pack demo_world ''/x/MyApp'' [])))))))
     = {''/x/signed_MyApp.apk''}"
proof -
  let ?p = "state_of (start_mode (demo_pack demo_world ''/x/MyApp'' []))"
  let ?g = "all_finished (switch_mode 0 ?p)"
  have g: "built_apk ?g = Some ''/x/MyApp.apk''" "aligned_apk ?g = Some ''/x/aligned_MyApp.apk''"
    "page ?g = 0" "length (commands ?g) \<le> current_index ?g" "files (os ?g) = files demo_world"
    by (simp_all add: all_finished_def switch_mode_def demo_pack_state)
  have "execute_next ?g
      = Returned ((emit (Information ''Done'' ''All tasks completed'') ?g)\<lparr>run_button := True\<rparr>)"
    using g(3,4) by (simp add: execute_next_def)
  then have s: "raised (execute_next ?g) = None"
    "files (os (state_of (execute_next ?g))) = files demo_world"
    "last (effects (state_of (execute_next ?g))) = Information ''Done'' ''All tasks completed''"
    "run_button (state_of (execute_next ?g))"
    by (simp_all add: emit_def g)
  have k: "files (os (state_of (execute_next (all_finished ?p)))) = {''/x/signed_MyApp.apk''}"
    using execute_next_cleans(2) [of "all_finished ?p" "''/x/MyApp.apk''" "''/x/aligned_MyApp.apk''"]
    by (auto simp: all_finished_def demo_pack_state demo_world_facts)
  show ?thesis
    using g(1,2) s k by (simp add: demo_world_facts)
qed

subsection \<open>Validation and the missing settings keys\<close>

lemma start_mode_keystore_missing_alias:
  assumes "page g0 \<noteq> 0" and "page g0 \<noteq> 1"
    and "py_or (which (os g0) ''apktool'') (which (os g0) ''apktool.bat'') = Some a" and "a \<noteq> []"
    and "settings g0 ''keystore_out'' = Some kout" and "settings g0 ''gen_alias'' = None"
  shows "start_mode g0 = Raised (KeyError ''gen_alias'') (prepared g0)"
  using assms(1,2,5,6)
  by (simp add: start_mode_found [OF assms(3,4)] plan_keystore_def getitem_def prepared_fields)

lemma init_gui_settings:
  "settings (init_gui w) k =
     (case config w of
        None \<Rightarrow> init_settings k
      | Some data \<Rightarrow> (case data k of None \<Rightarrow> init_settings k | Some v \<Rightarrow> Some v))"
  by (simp add: init_gui_def load_settings_def map_add_def split: option.splits)

lemma init_gui_fields:
  "os (init_gui w) = w" "effects (init_gui w) = []" "page (init_gui w) = 0"
  by (simp_all add: init_gui_def load_settings_def split: option.splits)

text \<open>
  With every key that the page reads present in the settings, an empty required field
  ends \<open>start_mode\<close> in the warning box, with the queue empty, nothing started and the
  Run button enabled again.
\<close>

lemma start_mode_rejects_empty_field:
  assumes "py_or (which (os g0) ''apktool'') (which (os g0) ''apktool.bat'') = Some a" and "a \<noteq> []"
    and "page g0 = 0 \<Longrightarrow> \<exists>apk out. settings g0 ''dump_file'' = Some apk
            \<and> settings g0 ''dump_out'' = Some out \<and> (apk = [] \<or> out = [])"
    and "page g0 = 1 \<Longrightarrow> \<exists>proj ks ksp. settings g0 ''pack_dir'' = Some proj
            \<and> settings g0 ''keystore_path'' = Some ks \<and> settings g0 ''keystore_pass'' = Some ksp
            \<and> (proj = [] \<or> ks = [] \<or> ksp = [])"
    and "page g0 \<noteq> 0 \<Longrightarrow> page g0 \<noteq> 1 \<Longrightarrow> \<exists>kout alias apw. settings g0 ''keystore_out'' = Some kout
            \<and> settings g0 ''gen_alias'' = Some alias \<and> settings g0 ''gen_alias_pass'' = Some apw
            \<and> (kout = [] \<or> alias = [] \<or> apw = [])"
  shows "raised (start_mode g0) = None
    \<and> commands (state_of (start_mode g0)) = []
    \<and> starts (effects (state_of (start_mode g0))) = starts (effects g0)
    \<and> (\<exists>msg. last (effects (state_of (start_mode g0))) = Warning ''Error'' msg)
    \<and> run_button (state_of (start_mode g0))"
proof -
  consider "page g0 = 0" | "page g0 = 1" | "page g0 \<noteq> 0" "page g0 \<noteq> 1" by blast
  then show ?thesis
  proof cases
    case 1
    then show ?thesis using assms(3)
      by (auto simp: start_mode_found [OF assms(1,2)] plan_dump_def getitem_def reject_def
          emit_def prepared_fields starts_append)
  next
    case 2
    then show ?thesis using assms(4)
      by (auto simp: start_mode_found [OF assms(1,2)] plan_pack_def getitem_def reject_def
          emit_def prepared_fields starts_append)
  next
    case 3
    then show ?thesis using assms(5)
      by (auto simp: start_mode_found [OF assms(1,2)] plan_keystore_def getitem_def reject_def
          emit_def prepared_fields starts_append)
  qed
qed

text \<open>
  C3 at the settings of a fresh start, on the Keystore page: the keystore output path, a
  required field, is empty, and \<open>start_mode\<close> ends in \<open>KeyError\<close> for the key \<open>gen_alias\<close>.
  No message box is shown (the console was cleared, nothing else happened) and the Run
  button stays disabled.
\<close>

theorem keystore_empty_field_raises:
  "settings (switch_mode 2 (init_gui demo_world)) ''keystore_out'' = Some []
   \<and> raised (start_mode (switch_mode 2 (init_gui demo_world))) = Some (KeyError ''gen_alias'')
   \<and> effects (state_of (start_mode (switch_mode 2 (init_gui demo_world)))) = [ConsoleClear]
   \<and> run_button (state_of (start_mode (switch_mode 2 (init_gui demo_world)))) = False"
proof -
  let ?g = "switch_mode 2 (init_gui demo_world)"
  have g: "page ?g = 2" "os ?g = demo_world" "effects ?g = []"
    "settings ?g ''keystore_out'' = Some []" "settings ?g ''gen_alias'' = None"
    by (simp_all add: switch_mode_def init_gui_fields init_gui_settings demo_world_facts
        init_settings_def)
  have a: "py_or (which (os ?g) ''apktool'') (which (os ?g) ''apktool.bat'') = Some ''/usr/bin/apktool''"
    by (simp add: g demo_world_facts py_or_Some)
  have "start_mode ?g = Raised (KeyError ''gen_alias'') (prepared ?g)"
    by (rule start_mode_keystore_missing_alias [OF _ _ a _ g(4,5)]) (simp_all add: g)
  moreover have "effects (prepared ?g) = [ConsoleClear]"
    by (simp add: prepared_def save_settings_def emit_def g demo_world_facts)
  ultimately show ?thesis
    by (simp add: g(4) prepared_fields)
qed

text \<open>
  C4 at a settings file that holds the keystore output path only: after loading, the
  keys absent from the file have their initial values (the Dump source is the empty
  string), the stored key has the stored value, and the alias and alias password keys
  are absent, since the initial settings do not have them. On the Keystore page
  \<open>start_mode\<close> then ends in \<open>KeyError\<close> for \<open>gen_alias\<close>.
\<close>

theorem alias_keys_absent_after_load:
  "settings (init_gui stored_world) ''dump_file'' = Some []
   \<and> settings (init_gui stored_world) ''keystore_out'' = Some ''/k.jks''
   \<and> settings (init_gui stored_world) ''gen_alias'' = None
   \<and> settings (init_gui stored_world) ''gen_alias_pass'' = None
   \<and> raised (start_mode (switch_mode 2 (init_gui stored_world))) = Some (KeyError ''gen_alias'')"
proof -
  let ?g = "switch_mode 2 (init_gui stored_world)"
  have c: "config stored_world = Some [''keystore_out'' \<mapsto> ''/k.jks'']"
    "which stored_world = which demo_world"
    by (simp_all add: stored_world_def)
  have s: "settings (init_gui stored_world) ''dump_file'' = Some []"
    "settings (init_gui stored_world) ''keystore_out'' = Some ''/k.jks''"
    "settings (init_gui stored_world) ''gen_alias'' = None"
    "settings (init_gui stored_world) ''gen_alias_pass'' = None"
    by (simp_all add: init_gui_settings c init_settings_def)
  have g: "page ?g = 2" "os ?g = stored_world" "settings ?g = settings (init_gui stored_world)"
    by (simp_all add: switch_mode_def init_gui_fields)
  have a: "py_or (which (os ?g) ''apktool'') (which (os ?g) ''apktool.bat'') = Some ''/usr/bin/apktool''"
    by (simp add: g c demo_world_facts py_or_Some)
  have "start_mode ?g = Raised (KeyError ''gen_alias'') (prepared ?g)"
    by (rule start_mode_keystore_missing_alias [OF _ _ a _ _ _, of "''/k.jks''"])
      (simp_all add: g s)
  then show ?thesis by (simp add: s)
qed

subsection \<open>A removal that fails\<close>

text \<open>
  C9 at a Pack run of \<open>/x/MyApp\<close> whose built package cannot be removed, when the last
  command has finished: \<open>execute_next\<close> ends in the \<open>OSError\<close> of the removal. The Done box
  is the last thing observed (nothing is written to the console about the failure), the
  aligned package is still there, and the Run button stays disabled.
\<close>

theorem failed_removal_escapes:
  "raised (execute_next (all_finished (state_of (start_mode (demo_pack locked_world ''/x/MyApp'' [])))))
     = Some (OSError ''/x/MyApp.apk'')
   \<and> last (effects (state_of (execute_next
        (all_finished (state_of (start_mode (demo_pack locked_world ''/x/MyApp'' [])))))))
     = Information ''Done'' ''All tasks completed''
   \<and> ''/x/aligned_MyApp.apk'' \<in> files (os (state_of (execute_next
        (all_finished (state_of (start_mode (demo_pack locked_world ''/x/MyApp'' [])))))))
   \<and> run_button (state_of (execute_next
        (all_finished (state_of (start_mode (demo_pack locked_world ''/x/MyApp'' []))))))
     = False"
proof -
  let ?p = "state_of (start_mode (demo_pack locked_world ''/x/MyApp'' []))"
  have w: "which locked_world = which demo_world" "files locked_world = files demo_world"
    "remove_error locked_world ''/x/MyApp.apk'' = Some (OSError ''/x/MyApp.apk'')"
    by (simp_all add: locked_world_def)
  have p: "page ?p = 1" "built_apk ?p = Some ''/x/MyApp.apk''"
    "length (commands ?p) = 3" "files (os ?p) = files demo_world"
    "remove_error (os ?p) = remove_error locked_world" "run_button ?p = False"
    by (simp_all add: demo_pack_started [OF w(1)] prepared_fields demo_pack_facts w)
  let ?g = "emit (Information ''Done'' ''All tasks completed'') (all_finished ?p)"
  have "execute_next (all_finished ?p) = Raised (OSError ''/x/MyApp.apk'') ?g"
    by (simp add: execute_next_def all_finished_def p w remove_if_file_def os_remove_def
        emit_def demo_world_facts)
  then show ?thesis
    by (simp add: emit_def all_finished_def p demo_world_facts)
qed

end
